theory Spec2Isabelle
  imports Main
begin

section \<open>Python values used by \<open>scripts/daily_cam_report.py\<close>\<close>

text \<open>
  A Python \<open>str\<close> is a sequence of Unicode code points, so it is modelled as a list of
  natural numbers (one per code point) and not as a byte string: \<open>strip\<close>, \<open>split\<close>,
  \<open>replace\<close> and \<open>len\<close> all work on code points. \<open>lit\<close> embeds an ASCII literal of the
  source; the em dash of the source (U+2014) is the code point 8212.
\<close>

type_synonym pystr = "nat list"

definition lit :: "string \<Rightarrow> pystr" where
  "lit s = map of_char s"

definition em_dash :: pystr where
  "em_dash = [8212]"

text \<open>
  The exceptions the script can end with. None of them is caught anywhere in the source,
  so the first one raised is the result of the run.
\<close>

datatype error =
    KeyError pystr
  | ValueError
  | AttributeError
  | TypeError
  | UnicodeEncodeError
  | RequestException
  | HTTPError nat
  | JSONDecodeError
  | EmailError
  | SMTPException

text \<open>
  What \<open>resp.json()\<close> returns: \<open>None\<close>, \<open>bool\<close>, \<open>int\<close>, \<open>str\<close>, \<open>list\<close> and \<open>dict\<close>
  (keys are strings, in insertion order and pairwise distinct, as in a Python \<open>dict\<close>).
  JSON numbers with a fraction or an exponent (Python \<open>float\<close>) are left out of the model.
\<close>

datatype json =
    JNull
  | JBool bool
  | JInt int
  | JStr pystr
  | JArr "json list"
  | JObj "(pystr \<times> json) list"

text \<open>Truth value of an object, as \<open>or\<close> tests it.\<close>

fun truthy :: "json \<Rightarrow> bool" where
  "truthy JNull = False"
| "truthy (JBool b) = b"
| "truthy (JInt n) = (n \<noteq> 0)"
| "truthy (JStr s) = (s \<noteq> [])"
| "truthy (JArr xs) = (xs \<noteq> [])"
| "truthy (JObj kvs) = (kvs \<noteq> [])"

text \<open>\<open>a or b\<close>\<close>

definition py_or :: "json \<Rightarrow> json \<Rightarrow> json" where
  "py_or a b = (if truthy a then a else b)"

text \<open>
  \<open>d.get(k, dflt)\<close>: only a \<open>dict\<close> has the method; on every other value of the model the
  attribute lookup raises \<open>AttributeError\<close>. \<open>d.get(k)\<close> is \<open>d.get(k, None)\<close>.
\<close>

fun py_get :: "json \<Rightarrow> pystr \<Rightarrow> json \<Rightarrow> error + json" where
  "py_get (JObj kvs) k dflt = Inr (case map_of kvs k of Some v \<Rightarrow> v | None \<Rightarrow> dflt)"
| "py_get _ k dflt = Inl AttributeError"

text \<open>
  \<open>d[k]\<close> with a string key: \<open>KeyError\<close> on a \<open>dict\<close> without the key, \<open>TypeError\<close> on a
  \<open>list\<close>, a \<open>str\<close> (indices must be integers) and on the values that are not subscriptable.
\<close>

fun py_item :: "json \<Rightarrow> pystr \<Rightarrow> error + json" where
  "py_item (JObj kvs) k = (case map_of kvs k of Some v \<Rightarrow> Inr v | None \<Rightarrow> Inl (KeyError k))"
| "py_item _ k = Inl TypeError"

text \<open>
  Iteration (\<open>for x in v\<close>): a \<open>list\<close> gives its elements, a \<open>dict\<close> its keys, a \<open>str\<close> its
  characters as one-character strings; the other values are not iterable.
\<close>

fun py_iter :: "json \<Rightarrow> error + json list" where
  "py_iter (JArr xs) = Inr xs"
| "py_iter (JObj kvs) = Inr (map (\<lambda>kv. JStr (fst kv)) kvs)"
| "py_iter (JStr s) = Inr (map (\<lambda>c. JStr [c]) s)"
| "py_iter _ = Inl TypeError"

text \<open>\<open>len(v)\<close>\<close>

fun py_len :: "json \<Rightarrow> error + nat" where
  "py_len (JArr xs) = Inr (length xs)"
| "py_len (JObj kvs) = Inr (length kvs)"
| "py_len (JStr s) = Inr (length s)"
| "py_len _ = Inl TypeError"

text \<open>\<open>str(n)\<close> of an integer: decimal digits, with a minus sign when negative.\<close>

fun nat_digits :: "nat \<Rightarrow> pystr" where
  "nat_digits n = (if n < 10 then [48 + n] else nat_digits (n div 10) @ [48 + n mod 10])"

declare nat_digits.simps [simp del]

definition str_int :: "int \<Rightarrow> pystr" where
  "str_int i = (if i < 0 then 45 # nat_digits (nat (- i)) else nat_digits (nat i))"

text \<open>
  What an f-string puts in place of \<open>{v}\<close>: the string itself, \<open>None\<close>, \<open>True\<close>, \<open>False\<close>,
  the decimal digits of an integer. For a \<open>list\<close> or a \<open>dict\<close> it is Python's \<open>repr\<close>, which
  the script does not define; it is the parameter \<open>rp\<close>.
\<close>

fun py_str :: "(json \<Rightarrow> pystr) \<Rightarrow> json \<Rightarrow> pystr" where
  "py_str rp (JStr s) = s"
| "py_str rp JNull = lit ''None''"
| "py_str rp (JBool b) = (if b then lit ''True'' else lit ''False'')"
| "py_str rp (JInt n) = str_int n"
| "py_str rp v = rp v"

text \<open>
  \<open>str.isspace\<close> for one character, and \<open>s.strip()\<close>, which removes the characters it
  accepts from both ends.
\<close>

definition isspace :: "nat \<Rightarrow> bool" where
  "isspace c = ((9 \<le> c \<and> c \<le> 13) \<or> (28 \<le> c \<and> c \<le> 32) \<or> c = 133 \<or> c = 160
      \<or> c = 5760 \<or> (8192 \<le> c \<and> c \<le> 8202) \<or> c = 8232 \<or> c = 8233 \<or> c = 8239
      \<or> c = 8287 \<or> c = 12288)"

definition strip :: "pystr \<Rightarrow> pystr" where
  "strip s = rev (dropWhile isspace (rev (dropWhile isspace s)))"

text \<open>
  \<open>s.split(sep)\<close> for a separator of one character: the pieces between the separators,
  empty pieces included, so the result is never the empty list.
\<close>

fun split :: "nat \<Rightarrow> pystr \<Rightarrow> pystr list" where
  "split sep [] = [[]]"
| "split sep (c # cs) =
     (if c = sep then [] # split sep cs
      else (case split sep cs of p # ps \<Rightarrow> (c # p) # ps | [] \<Rightarrow> [[c]]))"

text \<open>\<open>s.replace(old, new)\<close> for an \<open>old\<close> of one character.\<close>

definition replace :: "nat \<Rightarrow> pystr \<Rightarrow> pystr \<Rightarrow> pystr" where
  "replace old new s = concat (map (\<lambda>c. if c = old then new else [c]) s)"

text \<open>
  \<open>urllib.parse.urlencode\<close> of a dict of strings: every key and value goes through
  \<open>quote_plus\<close>, which keeps letters, digits and \<open>_.-~\<close>, turns a space into \<open>+\<close> and every
  other character into \<open>%XX\<close> for each byte of its UTF-8 encoding (a lone surrogate
  cannot be encoded); the pairs are written \<open>k=v\<close> and joined by \<open>&\<close>.
\<close>

definition utf8_encode :: "nat \<Rightarrow> error + nat list" where
  "utf8_encode c =
     (if c < 128 then Inr [c]
      else if c < 2048 then Inr [192 + c div 64, 128 + c mod 64]
      else if 55296 \<le> c \<and> c \<le> 57343 then Inl UnicodeEncodeError
      else if c < 65536 then Inr [224 + c div 4096, 128 + (c div 64) mod 64, 128 + c mod 64]
      else Inr [240 + c div 262144, 128 + (c div 4096) mod 64, 128 + (c div 64) mod 64,
                128 + c mod 64])"

definition hex_digit :: "nat \<Rightarrow> nat" where
  "hex_digit d = (if d < 10 then 48 + d else 55 + d)"

definition always_safe :: "nat \<Rightarrow> bool" where
  "always_safe c = ((65 \<le> c \<and> c \<le> 90) \<or> (97 \<le> c \<and> c \<le> 122) \<or> (48 \<le> c \<and> c \<le> 57)
      \<or> c = 95 \<or> c = 46 \<or> c = 45 \<or> c = 126)"

fun quote_plus :: "pystr \<Rightarrow> error + pystr" where
  "quote_plus [] = Inr []"
| "quote_plus (c # cs) =
     (case (if always_safe c then Inr [c]
            else if c = 32 then Inr [43]
            else (case utf8_encode c of
                    Inl e \<Rightarrow> Inl e
                  | Inr bs \<Rightarrow> Inr (concat (map (\<lambda>b. [37, hex_digit (b div 16), hex_digit (b mod 16)]) bs)))) of
        Inl e \<Rightarrow> Inl e
      | Inr q \<Rightarrow> (case quote_plus cs of Inl e \<Rightarrow> Inl e | Inr qs \<Rightarrow> Inr (q @ qs)))"

fun urlencode :: "(pystr \<times> pystr) list \<Rightarrow> error + pystr" where
  "urlencode [] = Inr []"
| "urlencode ((k, v) # kvs) =
     (case quote_plus k of
        Inl e \<Rightarrow> Inl e
      | Inr qk \<Rightarrow>
          (case quote_plus v of
             Inl e \<Rightarrow> Inl e
           | Inr qv \<Rightarrow>
               (case urlencode kvs of
                  Inl e \<Rightarrow> Inl e
                | Inr rest \<Rightarrow> Inr (qk @ [61] @ qv @ (if kvs = [] then [] else 38 # rest)))))"


section \<open>Configuration (lines 12 to 38)\<close>

text \<open>
  Errors are values: a computation is \<open>Inl\<close> of the exception raised or \<open>Inr\<close> of its
  result, and \<open>bindE\<close> runs the next statement only after a result.
\<close>

definition bindE :: "error + 'a \<Rightarrow> ('a \<Rightarrow> error + 'b) \<Rightarrow> error + 'b" where
  "bindE m f = (case m of Inl e \<Rightarrow> Inl e | Inr x \<Rightarrow> f x)"

text \<open>The process environment, \<open>os.environ[k]\<close> and \<open>os.environ.get(k, dflt)\<close>.\<close>

type_synonym environ = "pystr \<Rightarrow> pystr option"

definition environ_item :: "environ \<Rightarrow> pystr \<Rightarrow> error + pystr" where
  "environ_item env k = (case env k of None \<Rightarrow> Inl (KeyError k) | Some v \<Rightarrow> Inr v)"

definition environ_get :: "environ \<Rightarrow> pystr \<Rightarrow> pystr \<Rightarrow> pystr" where
  "environ_get env k dflt = (case env k of None \<Rightarrow> dflt | Some v \<Rightarrow> v)"

record config =
  JIRA_BASE :: pystr
  JIRA_EMAIL :: pystr
  JIRA_TOKEN :: pystr
  PROJECT_KEY :: pystr
  Z_TOKEN :: pystr
  SMTP_HOST :: pystr
  SMTP_PORT :: int
  SMTP_USER :: pystr
  SMTP_PASS :: pystr
  MAIL_TO :: pystr
  MAIL_FROM :: pystr

definition Z_BASE :: pystr where
  "Z_BASE = lit ''https://api.zephyrscale.smartbear.com/v2''"

text \<open>
  \<open>int(s)\<close> on a string. Which texts Python accepts is not defined by the script (it
  depends on the Unicode tables and the digit limit of the interpreter), so the conversion
  is the parameter \<open>int_str\<close>: the integer, or \<open>None\<close> where \<open>int\<close> raises \<open>ValueError\<close>.
\<close>

definition int_of :: "(pystr \<Rightarrow> int option) \<Rightarrow> pystr \<Rightarrow> error + int" where
  "int_of int_str s = (case int_str s of None \<Rightarrow> Inl ValueError | Some n \<Rightarrow> Inr n)"

text \<open>
  The module-level assignments of lines 12 to 33, in the order in which they are executed.
\<close>

definition module_config :: "(pystr \<Rightarrow> int option) \<Rightarrow> environ \<Rightarrow> error + config" where
  "module_config int_str env =
     bindE (environ_item env (lit ''JIRA_BASE'')) (\<lambda>jira_base.
     bindE (environ_item env (lit ''JIRA_EMAIL'')) (\<lambda>jira_email.
     bindE (environ_item env (lit ''JIRA_API_TOKEN'')) (\<lambda>jira_token.
     bindE (Inr (environ_get env (lit ''PROJECT_KEY'') (lit ''CAM''))) (\<lambda>project_key.
     bindE (environ_item env (lit ''ZEPHYR_SCALE_TOKEN'')) (\<lambda>z_token.
     bindE (environ_item env (lit ''SMTP_HOST'')) (\<lambda>smtp_host.
     bindE (int_of int_str (environ_get env (lit ''SMTP_PORT'') (lit ''587''))) (\<lambda>smtp_port.
     bindE (environ_item env (lit ''SMTP_USER'')) (\<lambda>smtp_user.
     bindE (environ_item env (lit ''SMTP_PASS'')) (\<lambda>smtp_pass.
     bindE (environ_item env (lit ''MAIL_TO'')) (\<lambda>mail_to.
     Inr \<lparr>JIRA_BASE = jira_base, JIRA_EMAIL = jira_email, JIRA_TOKEN = jira_token,
          PROJECT_KEY = project_key, Z_TOKEN = z_token, SMTP_HOST = smtp_host,
          SMTP_PORT = smtp_port, SMTP_USER = smtp_user, SMTP_PASS = smtp_pass,
          MAIL_TO = mail_to,
          MAIL_FROM = environ_get env (lit ''MAIL_FROM'') smtp_user\<rparr>))))))))))"

text \<open>
  The date window. \<open>today\<close> is what \<open>str(today_utc)\<close> gives, the ISO form of the UTC date
  read from the clock at line 36.
\<close>

definition start_iso :: "pystr \<Rightarrow> pystr" where
  "start_iso today = today @ lit ''T00:00:00Z''"

definition end_iso :: "pystr \<Rightarrow> pystr" where
  "end_iso today = today @ lit ''T23:59:59Z''"

section \<open>The remote services\<close>

text \<open>
  The script talks to the outside through \<open>requests.post\<close>, \<open>requests.get\<close> and one
  \<open>smtplib.SMTP\<close> session. Each such call is recorded as an effect, in order, and the
  \<open>world\<close> says how the call ends: an HTTP call raises or returns a status code with a
  body (\<open>None\<close> when the body is not JSON), a mail operation succeeds or raises.
\<close>

record message =
  Subject :: pystr
  From :: pystr
  To :: "pystr list"
  content :: pystr
  alternative :: pystr

datatype response = RequestFailed | Response nat "json option"

datatype effect =
    HttpPost pystr "pystr \<times> pystr" json
  | HttpGet pystr "(pystr \<times> pystr) list"
  | SmtpOpen pystr int
  | SmtpStartTls
  | SmtpLogin pystr pystr
  | SmtpSendMessage message
  | SmtpExit

record world =
  post_response :: "pystr \<Rightarrow> pystr \<times> pystr \<Rightarrow> json \<Rightarrow> response"
  get_response :: "pystr \<Rightarrow> (pystr \<times> pystr) list \<Rightarrow> response"
  smtp_open_ok :: "pystr \<Rightarrow> int \<Rightarrow> bool"
  starttls_ok :: bool
  login_ok :: "pystr \<Rightarrow> pystr \<Rightarrow> bool"
  send_message_ok :: "message \<Rightarrow> bool"
  exit_ok :: bool

text \<open>
  What the script takes from the Python library without defining it: \<open>repr\<close> of a list or
  dict (see \<open>py_str\<close>), \<open>int\<close> of a string (see \<open>int_of\<close>) and the checks \<open>EmailMessage\<close>
  makes when headers and bodies are assigned (\<open>None\<close> when it accepts the message).
\<close>

record library =
  repr_json :: "json \<Rightarrow> pystr"
  int_of_str :: "pystr \<Rightarrow> int option"
  email_error :: "message \<Rightarrow> error option"

text \<open>\<open>resp.raise_for_status()\<close> followed by \<open>resp.json()\<close>.\<close>

definition response_json :: "response \<Rightarrow> error + json" where
  "response_json r =
     (case r of
        RequestFailed \<Rightarrow> Inl RequestException
      | Response code body \<Rightarrow>
          (if 400 \<le> code \<and> code < 600 then Inl (HTTPError code)
           else (case body of None \<Rightarrow> Inl JSONDecodeError | Some data \<Rightarrow> Inr data)))"

section \<open>Helpers (lines 43 to 111)\<close>

definition jira_search :: "config \<Rightarrow> world \<Rightarrow> pystr \<Rightarrow> pystr \<Rightarrow> effect list \<times> (error + json)" where
  "jira_search cfg w jql flds =
     (let url = JIRA_BASE cfg @ lit ''/rest/api/3/search'';
          auth = (JIRA_EMAIL cfg, JIRA_TOKEN cfg);
          body = JObj [(lit ''jql'', JStr jql), (lit ''maxResults'', JInt 1000),
                       (lit ''fields'', JStr flds)]
      in ([HttpPost url auth body],
          bindE (response_json (post_response w url auth body)) (\<lambda>data.
          py_get data (lit ''issues'') (JArr []))))"

definition zephyr_get_test_executions ::
  "config \<Rightarrow> world \<Rightarrow> pystr \<Rightarrow> pystr \<Rightarrow> pystr \<Rightarrow> int \<Rightarrow> effect list \<times> (error + json)" where
  "zephyr_get_test_executions cfg w project_key from_iso to_iso limit =
     (case urlencode [(lit ''projectKey'', project_key), (lit ''from'', from_iso),
                      (lit ''to'', to_iso), (lit ''maxResults'', str_int limit)] of
        Inl e \<Rightarrow> ([], Inl e)
      | Inr qs \<Rightarrow>
          (let url = Z_BASE @ lit ''/testexecutions?'' @ qs;
               headers = [(lit ''Authorization'', lit ''Bearer '' @ Z_TOKEN cfg),
                          (lit ''Accept'', lit ''application/json'')]
           in ([HttpGet url headers],
               bindE (response_json (get_response w url headers)) (\<lambda>data.
               py_get data (lit ''executions'') data))))"

definition html_link :: "(json \<Rightarrow> pystr) \<Rightarrow> json \<Rightarrow> json \<Rightarrow> pystr" where
  "html_link rp href text =
     lit ''<a href='' @ [39] @ py_str rp href @ [39] @ lit ''>'' @ py_str rp text @ lit ''</a>''"

text \<open>\<open>v.replace(old, new)\<close>: a method of \<open>str\<close> only.\<close>

fun py_replace :: "json \<Rightarrow> nat \<Rightarrow> pystr \<Rightarrow> error + json" where
  "py_replace (JStr s) old new = Inr (JStr (replace old new s))"
| "py_replace _ old new = Inl AttributeError"

definition jira_row :: "(json \<Rightarrow> pystr) \<Rightarrow> config \<Rightarrow> json \<Rightarrow> error + json list" where
  "jira_row rp cfg issue =
     bindE (py_item issue (lit ''fields'')) (\<lambda>f.
     bindE (py_item issue (lit ''key'')) (\<lambda>key.
     bindE (py_get f (lit ''summary'') JNull) (\<lambda>s.
     bindE (py_replace (py_or s (JStr [])) 60 (lit ''&lt;'')) (\<lambda>summary.
     bindE (py_get f (lit ''priority'') (JObj [])) (\<lambda>p.
     bindE (py_get p (lit ''name'') (JStr [])) (\<lambda>priority.
     bindE (py_get f (lit ''status'') (JObj [])) (\<lambda>st.
     bindE (py_get st (lit ''name'') (JStr [])) (\<lambda>status.
     bindE (py_get f (lit ''assignee'') (JObj [])) (\<lambda>a.
     bindE (py_get a (lit ''displayName'') (JStr em_dash)) (\<lambda>assignee.
     Inr [JStr (html_link rp (JStr (JIRA_BASE cfg @ lit ''/browse/'' @ py_str rp key)) key),
          summary, priority, status, assignee]))))))))))"

definition table_row :: "(json \<Rightarrow> pystr) \<Rightarrow> json list \<Rightarrow> pystr" where
  "table_row rp row =
     lit ''<tr>'' @ concat (map (\<lambda>cell. lit ''<td>'' @ py_str rp cell @ lit ''</td>'') row)
       @ lit ''</tr>''"

definition to_table :: "(json \<Rightarrow> pystr) \<Rightarrow> json list list \<Rightarrow> json list \<Rightarrow> pystr" where
  "to_table rp rows headers =
     (let th = concat (map (\<lambda>h. lit ''<th>'' @ py_str rp h @ lit ''</th>'') headers);
          tr = concat (map (table_row rp) rows)
      in lit ''<table border='1' cellspacing='0' cellpadding='6'>''
         @ lit ''<thead><tr>'' @ th @ lit ''</tr></thead>''
         @ lit ''<tbody>'' @ tr @ lit ''</tbody>''
         @ lit ''</table>'')"


section \<open>The run of the script (lines 114 to 192)\<close>

definition jql_defects_today :: "config \<Rightarrow> pystr" where
  "jql_defects_today cfg =
     lit ''project = '' @ PROJECT_KEY cfg @ lit '' ''
     @ lit ''AND issuetype = Bug ''
     @ lit ''AND created >= startOfDay() ''
     @ lit ''ORDER BY priority DESC''"

definition jql_open_blockers :: "config \<Rightarrow> pystr" where
  "jql_open_blockers cfg =
     lit ''project = '' @ PROJECT_KEY cfg @ lit '' ''
     @ lit ''AND issuetype = Bug ''
     @ lit ''AND priority in (Blocker, Highest) ''
     @ lit ''AND statusCategory != Done''"

text \<open>
  \<open>collections.Counter\<close>: a dict from hashable keys to counts, in insertion order. The keys
  that can reach it here are strings, integers (\<open>True\<close> is the key \<open>1\<close>) and \<open>None\<close>; a
  \<open>list\<close> or a \<open>dict\<close> is not hashable.
\<close>

datatype key = KNone | KInt int | KStr pystr

type_synonym counter = "(key \<times> nat) list"

fun hash_key :: "json \<Rightarrow> error + key" where
  "hash_key JNull = Inr KNone"
| "hash_key (JBool b) = Inr (KInt (if b then 1 else 0))"
| "hash_key (JInt n) = Inr (KInt n)"
| "hash_key (JStr s) = Inr (KStr s)"
| "hash_key _ = Inl TypeError"

text \<open>\<open>c[k] = c.get(k, 0) + 1\<close>\<close>

fun counter_incr :: "counter \<Rightarrow> key \<Rightarrow> counter" where
  "counter_incr [] k = [(k, 1)]"
| "counter_incr ((k', n) # c) k =
     (if k' = k then (k', n + 1) # c else (k', n) # counter_incr c k)"

text \<open>\<open>c.get(k, 0)\<close>\<close>

definition counter_get :: "counter \<Rightarrow> key \<Rightarrow> nat" where
  "counter_get c k = (case map_of c k of Some n \<Rightarrow> n | None \<Rightarrow> 0)"

text \<open>The generator element of line 142: \<open>e.get("status") or "Unknown"\<close>.\<close>

definition status_label :: "json \<Rightarrow> error + json" where
  "status_label e =
     bindE (py_get e (lit ''status'') JNull) (\<lambda>s. Inr (py_or s (JStr (lit ''Unknown''))))"

text \<open>\<open>Counter\<close> consuming that generator, one element after the other.\<close>

fun count_labels :: "counter \<Rightarrow> json list \<Rightarrow> error + counter" where
  "count_labels c [] = Inr c"
| "count_labels c (e # es) =
     bindE (status_label e) (\<lambda>v.
     bindE (hash_key v) (\<lambda>k.
     count_labels (counter_incr c k) es))"

definition status_counts :: "json \<Rightarrow> error + counter" where
  "status_counts executions = bindE (py_iter executions) (count_labels [])"

text \<open>A list comprehension \<open>[f(i) for i in xs]\<close> whose \<open>f\<close> may raise.\<close>

fun mapE :: "('a \<Rightarrow> error + 'b) \<Rightarrow> 'a list \<Rightarrow> error + 'b list" where
  "mapE f [] = Inr []"
| "mapE f (x # xs) = bindE (f x) (\<lambda>y. bindE (mapE f xs) (\<lambda>ys. Inr (y # ys)))"

definition table_headers :: "json list" where
  "table_headers = [JStr (lit ''Key''), JStr (lit ''Summary''), JStr (lit ''Priority''),
                    JStr (lit ''Status''), JStr (lit ''Assignee'')]"

text \<open>
  The f-string of lines 146 to 177. Its expressions are evaluated from left to right;
  \<open>nl\<close> is the newline character.
\<close>

definition nl :: pystr where
  "nl = [10]"

definition html_body ::
  "(json \<Rightarrow> pystr) \<Rightarrow> config \<Rightarrow> pystr \<Rightarrow> json \<Rightarrow> counter \<Rightarrow> json \<Rightarrow> json \<Rightarrow> error + pystr" where
  "html_body rp cfg today_str executions counts defects_today open_blockers =
     bindE (py_len executions) (\<lambda>n_executions.
     bindE (py_len defects_today) (\<lambda>n_defects.
     bindE (py_iter defects_today) (\<lambda>is1.
     bindE (mapE (jira_row rp cfg) is1) (\<lambda>rows1.
     bindE (py_len open_blockers) (\<lambda>n_blockers.
     bindE (py_iter open_blockers) (\<lambda>is2.
     bindE (mapE (jira_row rp cfg) is2) (\<lambda>rows2.
     Inr (concat
      [nl,
       lit ''<html>'', nl,
       lit ''  <body>'', nl,
       lit ''    <h2>Daily QA Report '', em_dash, lit '' '', today_str,
         lit '' (Project: '', PROJECT_KEY cfg, lit '')</h2>'', nl,
       nl,
       lit ''    <h3>Zephyr Scale '', em_dash, lit '' Test Executions Today</h3>'', nl,
       lit ''    <ul>'', nl,
       lit ''      <li>Total executed today: '', str_int (int n_executions), lit ''</li>'', nl,
       lit ''      <li>Pass: '',
         str_int (int (counter_get counts (KStr (lit ''Pass'')))), lit ''</li>'', nl,
       lit ''      <li>Fail: '',
         str_int (int (counter_get counts (KStr (lit ''Fail'')))), lit ''</li>'', nl,
       lit ''      <li>Blocked: '',
         str_int (int (counter_get counts (KStr (lit ''Blocked'')))), lit ''</li>'', nl,
       lit ''      <li>Not Executed: '',
         str_int (int (counter_get counts (KStr (lit ''Not Executed'')))), lit ''</li>'', nl,
       lit ''      <li>Other/Unknown: '',
         str_int (int (counter_get counts (KStr (lit ''Unknown'')))), lit ''</li>'', nl,
       lit ''    </ul>'', nl,
       nl,
       lit ''    <h3>Defects Created Today (Jira '', [8211], lit '' CAM): '',
         str_int (int n_defects), lit ''</h3>'', nl,
       lit ''    '', to_table rp rows1 table_headers, nl,
       nl,
       lit ''    <h3>Open Blockers (Priority Blocker/Highest): '',
         str_int (int n_blockers), lit ''</h3>'', nl,
       lit ''    '', to_table rp rows2 table_headers, nl,
       nl,
       lit ''    <p style=\"font-size: 12px; color: #666;\">'', nl,
       lit ''      Generated automatically from Jira Cloud ('', JIRA_BASE cfg, lit '')'', nl,
       lit ''      and Zephyr Scale Cloud APIs.<br/>'', nl,
       lit ''      Window: '', start_iso today_str, lit '' to '', end_iso today_str,
         lit '' (UTC).<br/>'', nl,
       lit ''      Sent via Gmail SMTP as '', SMTP_USER cfg, lit ''.'', nl,
       lit ''    </p>'', nl,
       lit ''  </body>'', nl,
       lit ''</html>'', nl]))))))))"

text \<open>The message of lines 181 to 187; 44 is the comma.\<close>

definition msg :: "config \<Rightarrow> pystr \<Rightarrow> pystr \<Rightarrow> message" where
  "msg cfg today_str body =
     \<lparr>Subject = lit ''Daily QA Report '' @ em_dash @ lit '' '' @ today_str @ lit '' (CAM)'',
      From = MAIL_FROM cfg,
      To = map strip (split 44 (MAIL_TO cfg)),
      content = lit ''This email contains HTML content. Please use an HTML-capable client.'',
      alternative = body\<rparr>"

text \<open>
  The mail session of lines 189 to 192. When the constructor raises there is no session;
  otherwise the \<open>with\<close> block runs up to its first failing call and the session is left
  through \<open>__exit__\<close> on every path. An exception of \<open>__exit__\<close> replaces the result.
\<close>

definition smtp_session :: "config \<Rightarrow> world \<Rightarrow> message \<Rightarrow> effect list \<times> (error + unit)" where
  "smtp_session cfg w m =
     (if \<not> smtp_open_ok w (SMTP_HOST cfg) (SMTP_PORT cfg) then
        ([SmtpOpen (SMTP_HOST cfg) (SMTP_PORT cfg)], Inl SMTPException)
      else
        (let block =
               (if \<not> starttls_ok w then ([SmtpStartTls], Inl SMTPException)
                else if \<not> login_ok w (SMTP_USER cfg) (SMTP_PASS cfg) then
                  ([SmtpStartTls, SmtpLogin (SMTP_USER cfg) (SMTP_PASS cfg)], Inl SMTPException)
                else if \<not> send_message_ok w m then
                  ([SmtpStartTls, SmtpLogin (SMTP_USER cfg) (SMTP_PASS cfg), SmtpSendMessage m],
                   Inl SMTPException)
                else
                  ([SmtpStartTls, SmtpLogin (SMTP_USER cfg) (SMTP_PASS cfg), SmtpSendMessage m],
                   Inr ()))
         in (SmtpOpen (SMTP_HOST cfg) (SMTP_PORT cfg) # fst block @ [SmtpExit],
             if exit_ok w then snd block else Inl SMTPException)))"

text \<open>
  Sequencing of statements that perform calls: the effects of both are kept in order, and
  the second statement runs only when the first did not raise.
\<close>

definition bindIO ::
  "effect list \<times> (error + 'a) \<Rightarrow> ('a \<Rightarrow> effect list \<times> (error + 'b)) \<Rightarrow> effect list \<times> (error + 'b)" where
  "bindIO m f =
     (case snd m of
        Inl e \<Rightarrow> (fst m, Inl e)
      | Inr x \<Rightarrow> (fst m @ fst (f x), snd (f x)))"

definition pureIO :: "error + 'a \<Rightarrow> effect list \<times> (error + 'a)" where
  "pureIO r = ([], r)"

text \<open>
  The whole module, run from top to bottom: the calls it made, in order, and how it
  ended. \<open>today\<close> is the UTC date read from the clock, in ISO form.
\<close>

definition daily_cam_report ::
  "library \<Rightarrow> environ \<Rightarrow> pystr \<Rightarrow> world \<Rightarrow> effect list \<times> (error + unit)" where
  "daily_cam_report lib env today w =
     bindIO (pureIO (module_config (int_of_str lib) env)) (\<lambda>cfg.
     bindIO (jira_search cfg w (jql_defects_today cfg)
               (lit ''key,summary,priority,status,assignee'')) (\<lambda>defects_today.
     bindIO (jira_search cfg w (jql_open_blockers cfg)
               (lit ''key,summary,priority,status,assignee'')) (\<lambda>open_blockers.
     bindIO (zephyr_get_test_executions cfg w (PROJECT_KEY cfg) (start_iso today)
               (end_iso today) 1000) (\<lambda>executions.
     bindIO (pureIO (status_counts executions)) (\<lambda>counts.
     bindIO (pureIO (html_body (repr_json lib) cfg today executions counts
               defects_today open_blockers)) (\<lambda>body.
     bindIO (pureIO (case email_error lib (msg cfg today body) of
                       Some e \<Rightarrow> Inl e | None \<Rightarrow> Inr (msg cfg today body))) (\<lambda>m.
     smtp_session cfg w m)))))))"


section \<open>Notions used to state the properties\<close>

text \<open>The Counter key under which line 142 counts a record, or the exception it raises.\<close>

definition label_key :: "json \<Rightarrow> error + key" where
  "label_key e = bindE (status_label e) hash_key"

text \<open>
  An execution record of the data model: an object whose status, when there is one, is a
  string or null.
\<close>

fun execution_record :: "json \<Rightarrow> bool" where
  "execution_record (JObj kvs) =
     (case map_of kvs (lit ''status'') of
        None \<Rightarrow> True
      | Some JNull \<Rightarrow> True
      | Some (JStr s) \<Rightarrow> True
      | Some _ \<Rightarrow> False)"
| "execution_record _ = False"


text \<open>
  The keys read with \<open>os.environ[...]\<close>, in the order of lines 12 to 32. The first five
  are read before \<open>SMTP_PORT\<close> is converted at line 28, the last three after it.
\<close>

definition required_keys :: "pystr list" where
  "required_keys =
     [lit ''JIRA_BASE'', lit ''JIRA_EMAIL'', lit ''JIRA_API_TOKEN'', lit ''ZEPHYR_SCALE_TOKEN'',
      lit ''SMTP_HOST'', lit ''SMTP_USER'', lit ''SMTP_PASS'', lit ''MAIL_TO'']"

text \<open>\<open>sep.join(ps)\<close>, to say what the pieces of a split are.\<close>

fun join :: "pystr \<Rightarrow> pystr list \<Rightarrow> pystr" where
  "join sep [] = []"
| "join sep [p] = p"
| "join sep (p # q # ps) = p @ sep @ join sep (q # ps)"

text \<open>The number of positions of a string at which a pattern starts.\<close>

fun occurrences :: "pystr \<Rightarrow> pystr \<Rightarrow> nat" where
  "occurrences p [] = 0"
| "occurrences p (c # cs) =
     (if take (length p) (c # cs) = p then 1 else 0) + occurrences p cs"

text \<open>
  The two parts of the string \<open>to_table\<close> returns before its closing \<open></table>\<close>: the
  opening tag with the header row, and the body element.
\<close>

definition table_head :: "(json \<Rightarrow> pystr) \<Rightarrow> json list \<Rightarrow> pystr" where
  "table_head rp headers =
     lit ''<table border='1' cellspacing='0' cellpadding='6'>''
     @ lit ''<thead><tr>''
     @ concat (map (\<lambda>h. lit ''<th>'' @ py_str rp h @ lit ''</th>'') headers)
     @ lit ''</tr></thead>''"

definition table_body :: "(json \<Rightarrow> pystr) \<Rightarrow> json list list \<Rightarrow> pystr" where
  "table_body rp rows = lit ''<tbody>'' @ concat (map (table_row rp) rows) @ lit ''</tbody>''"

section \<open>Basic facts\<close>

lemma lit_eq_iff [simp]: "lit a = lit b \<longleftrightarrow> a = b"
  unfolding lit_def by (simp add: inj_map_eq_map inj_on_def)

lemma lit_eq_Nil [simp]: "lit a = [] \<longleftrightarrow> a = []"
  by (simp add: lit_def)

lemma bindE_Inr [simp]: "bindE (Inr x) f = f x"
  by (simp add: bindE_def)

lemma bindE_Inl [simp]: "bindE (Inl e) f = Inl e"
  by (simp add: bindE_def)

lemma bindE_eq_Inr: "bindE m f = Inr y \<longleftrightarrow> (\<exists>x. m = Inr x \<and> f x = Inr y)"
  by (cases m) simp_all

section \<open>The status tally (line 142)\<close>

lemma counter_get_incr:
  "counter_get (counter_incr c k) k' = counter_get c k' + (if k' = k then 1 else 0)"
  by (induction c k rule: counter_incr.induct) (auto simp: counter_get_def)

lemma fst_set_counter_incr: "fst ` set (counter_incr c k) = insert k (fst ` set c)"
  by (induction c k rule: counter_incr.induct) auto

lemma distinct_counter_incr:
  "distinct (map fst c) \<Longrightarrow> distinct (map fst (counter_incr c k))"
proof (induction c k rule: counter_incr.induct)
  case (1 k)
  then show ?case by simp
next
  case (2 k' n c k)
  then show ?case
    using fst_set_counter_incr [of c k] by auto
qed

lemma sum_counter_incr: "sum_list (map snd (counter_incr c k)) = Suc (sum_list (map snd c))"
  by (induction c k rule: counter_incr.induct) auto

lemma count_labels_Cons:
  "count_labels c (e # es) = bindE (label_key e) (\<lambda>k. count_labels (counter_incr c k) es)"
  by (cases "status_label e") (simp_all add: label_key_def)

text \<open>The tally is built exactly when no element makes the generator or the hashing raise.\<close>

lemma count_labels_succeeds_iff:
  "(\<exists>c'. count_labels c es = Inr c') \<longleftrightarrow> list_all (\<lambda>e. \<exists>k. label_key e = Inr k) es"
proof (induction es arbitrary: c)
  case Nil
  then show ?case by simp
next
  case (Cons e es)
  show ?case
    by (cases "label_key e") (simp_all add: count_labels_Cons Cons.IH del: count_labels.simps)
qed

text \<open>
  What a finished tally holds: every element added one to the total, the keys stay
  pairwise distinct, and the count of a key grew by the number of elements with that key.
\<close>

lemma count_labels_result:
  "count_labels c es = Inr c' \<Longrightarrow>
     sum_list (map snd c') = sum_list (map snd c) + length es
     \<and> (distinct (map fst c) \<longrightarrow> distinct (map fst c'))
     \<and> (\<forall>k. counter_get c' k = counter_get c k + length (filter (\<lambda>e. label_key e = Inr k) es))"
proof (induction es arbitrary: c)
  case Nil
  then show ?case by simp
next
  case (Cons e es)
  from Cons.prems obtain k where k: "label_key e = Inr k"
    and rest: "count_labels (counter_incr c k) es = Inr c'"
    by (auto simp: count_labels_Cons bindE_eq_Inr simp del: count_labels.simps)
  from Cons.IH [OF rest] show ?case
    using k by (auto simp: sum_counter_incr distinct_counter_incr counter_get_incr)
qed

lemma execution_record_label_key:
  "execution_record e \<Longrightarrow> \<exists>k. label_key e = Inr k"
  by (cases e rule: execution_record.cases)
     (auto simp: label_key_def status_label_def py_or_def split: option.splits json.splits)

lemma list_all_execution_record:
  "list_all execution_record es \<Longrightarrow> list_all (\<lambda>e. \<exists>k. label_key e = Inr k) es"
  by (induction es) (simp_all add: execution_record_label_key)

text \<open>
  Claim C3. For every sequence of execution records the tally is built, its labels are
  pairwise distinct, and the counts of all its labels add up to the length of the
  sequence: no record is dropped and none is counted twice.
\<close>

theorem status_counts_conservation:
  assumes "list_all execution_record es"
  shows "\<exists>c. status_counts (JArr es) = Inr c \<and> distinct (map fst c)
           \<and> sum_list (map snd c) = length es"
proof -
  from assms have "list_all (\<lambda>e. \<exists>k. label_key e = Inr k) es"
    by (rule list_all_execution_record)
  then obtain c where c: "count_labels [] es = Inr c"
    using count_labels_succeeds_iff by blast
  from count_labels_result [OF c] have "distinct (map fst c)" "sum_list (map snd c) = length es"
    by simp_all
  with c show ?thesis by (simp add: status_counts_def)
qed

theorem status_counts_conservation_witness:
  "list_all execution_record
     [JObj [(lit ''status'', JStr (lit ''Pass''))], JObj [(lit ''status'', JStr (lit ''Pass''))],
      JObj [(lit ''status'', JStr (lit ''Fail''))], JObj [(lit ''status'', JNull)], JObj []]
   \<and> status_counts (JArr
     [JObj [(lit ''status'', JStr (lit ''Pass''))], JObj [(lit ''status'', JStr (lit ''Pass''))],
      JObj [(lit ''status'', JStr (lit ''Fail''))], JObj [(lit ''status'', JNull)], JObj []])
     = Inr [(KStr (lit ''Pass''), 2), (KStr (lit ''Fail''), 1), (KStr (lit ''Unknown''), 2)]"
  using status_counts_conservation [of
     "[JObj [(lit ''status'', JStr (lit ''Pass''))], JObj [(lit ''status'', JStr (lit ''Pass''))],
      JObj [(lit ''status'', JStr (lit ''Fail''))], JObj [(lit ''status'', JNull)], JObj []]"]
  by (simp add: status_counts_def status_label_def py_or_def)

text \<open>
  Claim C4. A record whose status field is missing or is the empty string is counted
  under the label \<open>Unknown\<close>: putting such a record anywhere into a sequence that can be
  tallied gives a tally in which \<open>Unknown\<close> has one more and every other label is unchanged.
\<close>

theorem missing_status_is_unknown:
  assumes "map_of kvs (lit ''status'') = None \<or> map_of kvs (lit ''status'') = Some (JStr [])"
    and "status_counts (JArr (xs @ ys)) = Inr c"
  shows "\<exists>c'. status_counts (JArr (xs @ JObj kvs # ys)) = Inr c'
           \<and> counter_get c' (KStr (lit ''Unknown'')) = counter_get c (KStr (lit ''Unknown'')) + 1
           \<and> (\<forall>k. k \<noteq> KStr (lit ''Unknown'') \<longrightarrow> counter_get c' k = counter_get c k)"
proof -
  from assms(1) have lk: "label_key (JObj kvs) = Inr (KStr (lit ''Unknown''))"
    by (auto simp: label_key_def status_label_def py_or_def)
  from assms(2) have c: "count_labels [] (xs @ ys) = Inr c"
    by (simp add: status_counts_def)
  then have "list_all (\<lambda>e. \<exists>k. label_key e = Inr k) (xs @ ys)"
    using count_labels_succeeds_iff by blast
  with lk have "list_all (\<lambda>e. \<exists>k. label_key e = Inr k) (xs @ JObj kvs # ys)"
    by simp
  then obtain c' where c': "count_labels [] (xs @ JObj kvs # ys) = Inr c'"
    using count_labels_succeeds_iff by blast
  from count_labels_result [OF c] count_labels_result [OF c'] lk
  have "counter_get c' (KStr (lit ''Unknown'')) = counter_get c (KStr (lit ''Unknown'')) + 1"
    and "\<forall>k. k \<noteq> KStr (lit ''Unknown'') \<longrightarrow> counter_get c' k = counter_get c k"
    by (auto simp: counter_get_def)
  with c' show ?thesis by (simp add: status_counts_def)
qed

theorem missing_status_is_unknown_witness:
  "(map_of [(lit ''id'', JInt 7)] (lit ''status'') = None
      \<or> map_of [(lit ''id'', JInt 7)] (lit ''status'') = Some (JStr []))
   \<and> status_counts (JArr ([JObj [(lit ''status'', JStr (lit ''Pass''))]] @ []))
       = Inr [(KStr (lit ''Pass''), 1)]
   \<and> status_counts (JArr ([JObj [(lit ''status'', JStr (lit ''Pass''))]]
         @ JObj [(lit ''id'', JInt 7)] # []))
       = Inr [(KStr (lit ''Pass''), 1), (KStr (lit ''Unknown''), 1)]"
  using missing_status_is_unknown [of "[(lit ''id'', JInt 7)]"
      "[JObj [(lit ''status'', JStr (lit ''Pass''))]]" "[]" "[(KStr (lit ''Pass''), 1)]"]
  by (simp add: status_counts_def status_label_def py_or_def)


section \<open>The execution listing (lines 57 to 77)\<close>

lemma urlencode_window:
  "urlencode [(lit ''projectKey'', lit ''CAM''), (lit ''from'', lit ''2024-01-02T00:00:00Z''),
              (lit ''to'', lit ''2024-01-02T23:59:59Z''), (lit ''maxResults'', str_int 1000)]
   = Inr (lit ''projectKey=CAM&from=2024-01-02T00%3A00%3A00Z&to=2024-01-02T23%3A59%3A59Z&maxResults=1000'')"
  by (simp add: lit_def str_int_def nat_digits.simps always_safe_def utf8_encode_def hex_digit_def)

text \<open>
  Claim C1. The claim says that a listing answered as a bare array and one answered as an
  object with an \<open>executions\<close> field are both accepted and give the same sequence. Line 76
  calls \<open>data.get\<close>, which a list does not have: the object shape gives the sequence, the
  bare array of the same records raises \<open>AttributeError\<close>.
\<close>

theorem zephyr_bare_array_raises:
  "snd (zephyr_get_test_executions cfg
          (w\<lparr>get_response := \<lambda>url headers.
                Response 200 (Some (JArr [JObj [(lit ''status'', JStr (lit ''Pass''))]]))\<rparr>)
          (lit ''CAM'') (lit ''2024-01-02T00:00:00Z'') (lit ''2024-01-02T23:59:59Z'') 1000)
     = Inl AttributeError
   \<and> snd (zephyr_get_test_executions cfg
          (w\<lparr>get_response := \<lambda>url headers.
                Response 200 (Some (JObj [(lit ''executions'',
                  JArr [JObj [(lit ''status'', JStr (lit ''Pass''))]])]))\<rparr>)
          (lit ''CAM'') (lit ''2024-01-02T00:00:00Z'') (lit ''2024-01-02T23:59:59Z'') 1000)
     = Inr (JArr [JObj [(lit ''status'', JStr (lit ''Pass''))]])"
  by (simp add: zephyr_get_test_executions_def urlencode_window response_json_def
        del: urlencode.simps)

section \<open>The message (lines 181 to 187)\<close>

text \<open>
  Claim C5. The claim says that the subject embeds the configured project key. Line 182
  writes the literal \<open>(CAM)\<close>: with the project key \<open>XYZ\<close> the subject still names CAM.
\<close>

theorem subject_names_cam:
  "Subject (msg (cfg\<lparr>PROJECT_KEY := lit ''XYZ''\<rparr>) (lit ''2024-01-02'') body)
     = lit ''Daily QA Report '' @ [8212] @ lit '' 2024-01-02 (CAM)''"
  by (simp add: msg_def em_dash_def lit_def)

lemma split_not_Nil [simp]: "split sep s \<noteq> []"
  by (induction s) (auto split: list.splits)

lemma split_no_sep: "sep \<notin> set s \<Longrightarrow> split sep s = [s]"
  by (induction s) auto

lemma join_split: "join [sep] (split sep s) = s"
proof (induction s)
  case Nil
  then show ?case by simp
next
  case (Cons c cs)
  show ?case
  proof (cases "c = sep")
    case True
    with Cons show ?thesis by (cases "split sep cs") simp_all
  next
    case False
    obtain p ps where sp: "split sep cs = p # ps"
      by (cases "split sep cs") simp_all
    with Cons False show ?thesis by (cases ps) simp_all
  qed
qed

lemma split_pieces_no_sep: "list_all (\<lambda>p. sep \<notin> set p) (split sep s)"
  by (induction s) (auto split: list.splits)

lemma length_split: "length (split sep s) = Suc (count_list s sep)"
  by (induction s) (auto split: list.splits)

lemma strip_all_space: "list_all isspace s \<Longrightarrow> strip s = []"
  by (auto simp: strip_def list_all_iff dropWhile_eq_Nil_conv dest: set_dropWhileD)

lemma strip_decomp:
  "\<exists>l r. s = l @ strip s @ r \<and> list_all isspace l \<and> list_all isspace r"
proof -
  let ?t = "dropWhile isspace s"
  have 1: "s = takeWhile isspace s @ ?t" by simp
  have "rev (takeWhile isspace (rev ?t) @ dropWhile isspace (rev ?t)) = rev (rev ?t)"
    by (simp only: takeWhile_dropWhile_id)
  then have "rev (dropWhile isspace (rev ?t)) @ rev (takeWhile isspace (rev ?t)) = ?t"
    by (simp only: rev_append rev_rev_ident)
  then have 2: "?t = strip s @ rev (takeWhile isspace (rev ?t))"
    by (simp only: strip_def)
  have 3: "list_all isspace (takeWhile isspace s)"
    by (simp add: list_all_iff) (meson set_takeWhileD)
  have 4: "list_all isspace (rev (takeWhile isspace (rev ?t)))"
    by (simp add: list_all_iff) (meson set_takeWhileD)
  from 1 2 have "s = takeWhile isspace s @ strip s @ rev (takeWhile isspace (rev ?t))"
    by simp
  with 3 4 show ?thesis by blast
qed

lemma strip_ends: "strip s = [] \<or> (\<not> isspace (hd (strip s)) \<and> \<not> isspace (last (strip s)))"
proof (cases "strip s = []")
  case True
  then show ?thesis by simp
next
  case False
  let ?t = "dropWhile isspace s"
  let ?u = "dropWhile isspace (rev ?t)"
  from False have u: "?u \<noteq> []" by (simp add: strip_def)
  then have hu: "\<not> isspace (hd ?u)" by (rule hd_dropWhile)
  from u have "last (strip s) = hd ?u" by (simp add: strip_def last_rev)
  with hu have l: "\<not> isspace (last (strip s))" by simp
  from u have t: "?t \<noteq> []" by (metis dropWhile.simps(1) rev.simps(1))
  then have ht: "\<not> isspace (hd ?t)" by (rule hd_dropWhile)
  have "rev (takeWhile isspace (rev ?t) @ ?u) = rev (rev ?t)"
    by (simp only: takeWhile_dropWhile_id)
  then have "rev ?u @ rev (takeWhile isspace (rev ?t)) = ?t"
    by (simp only: rev_append rev_rev_ident)
  then have "?t = strip s @ rev (takeWhile isspace (rev ?t))" by (simp only: strip_def)
  with False have "hd ?t = hd (strip s)" by (metis hd_append2)
  with ht l show ?thesis by simp
qed

text \<open>
  Claim C9. The recipients are the pieces of the configured string between its commas,
  each without its surrounding whitespace: the pieces contain no comma and joined by
  commas they give the string back, every address is its piece less whitespace on the two
  sides, and no address starts or ends with whitespace. Nothing else is checked, the
  result is always a list. The string \<open>a@x.com, b@y.com,c@z.com\<close> gives the three addresses.
\<close>

theorem recipients_split_and_trimmed:
  "To (msg cfg today body) = map strip (split 44 (MAIL_TO cfg))
   \<and> join [44] (split 44 (MAIL_TO cfg)) = MAIL_TO cfg
   \<and> list_all (\<lambda>p. 44 \<notin> set p) (split 44 (MAIL_TO cfg))
   \<and> list_all (\<lambda>p. \<exists>l r. p = l @ strip p @ r \<and> list_all isspace l \<and> list_all isspace r)
        (split 44 (MAIL_TO cfg))
   \<and> list_all (\<lambda>a. a = [] \<or> (\<not> isspace (hd a) \<and> \<not> isspace (last a))) (To (msg cfg today body))
   \<and> To (msg (cfg\<lparr>MAIL_TO := lit ''a@x.com, b@y.com,c@z.com''\<rparr>) today body)
       = [lit ''a@x.com'', lit ''b@y.com'', lit ''c@z.com'']"
proof -
  have 1: "To (msg cfg today body) = map strip (split 44 (MAIL_TO cfg))"
    by (simp add: msg_def)
  have 2: "list_all (\<lambda>p. \<exists>l r. p = l @ strip p @ r \<and> list_all isspace l \<and> list_all isspace r)
        (split 44 (MAIL_TO cfg))"
    using strip_decomp by (simp add: list_all_iff)
  have 3: "list_all (\<lambda>a. a = [] \<or> (\<not> isspace (hd a) \<and> \<not> isspace (last a))) (To (msg cfg today body))"
    using strip_ends by (simp add: 1 list_all_iff)
  have 4: "To (msg (cfg\<lparr>MAIL_TO := lit ''a@x.com, b@y.com,c@z.com''\<rparr>) today body)
       = [lit ''a@x.com'', lit ''b@y.com'', lit ''c@z.com'']"
    by (simp add: msg_def lit_def strip_def isspace_def)
  from 1 2 3 4 show ?thesis
    by (simp add: join_split split_pieces_no_sep)
qed

text \<open>
  Claim C10. When the configured recipient string is empty or holds whitespace only, the
  recipients are the list with the empty string as its one element.
\<close>

theorem blank_recipients_one_empty_address:
  assumes "list_all isspace (MAIL_TO cfg)"
  shows "To (msg cfg today body) = [[]]"
proof -
  have "\<not> isspace 44" by (simp add: isspace_def)
  with assms have "44 \<notin> set (MAIL_TO cfg)" by (auto simp: list_all_iff)
  then have "split 44 (MAIL_TO cfg) = [MAIL_TO cfg]" by (rule split_no_sep)
  with assms show ?thesis by (simp add: msg_def strip_all_space)
qed

theorem blank_recipients_one_empty_address_witness:
  "list_all isspace (lit ''  '')
   \<and> To (msg \<lparr>JIRA_BASE = [], JIRA_EMAIL = [], JIRA_TOKEN = [], PROJECT_KEY = lit ''CAM'',
         Z_TOKEN = [], SMTP_HOST = [], SMTP_PORT = 587, SMTP_USER = [], SMTP_PASS = [],
         MAIL_TO = lit ''  '', MAIL_FROM = []\<rparr> (lit ''2024-01-02'') []) = [[]]"
  using blank_recipients_one_empty_address [of
      "\<lparr>JIRA_BASE = [], JIRA_EMAIL = [], JIRA_TOKEN = [], PROJECT_KEY = lit ''CAM'',
         Z_TOKEN = [], SMTP_HOST = [], SMTP_PORT = 587, SMTP_USER = [], SMTP_PASS = [],
         MAIL_TO = lit ''  '', MAIL_FROM = []\<rparr>" "lit ''2024-01-02''" "[]"]
  by (simp add: lit_def isspace_def)

section \<open>Issue rows (lines 84 to 97)\<close>

text \<open>
  Claim C6. The claim says that an unassigned issue gets the em dash in its assignee cell
  however the data says so. With the key \<open>assignee\<close> absent it does; with \<open>assignee\<close> null,
  line 90 calls \<open>.get\<close> on \<open>None\<close> and \<open>jira_row\<close> raises \<open>AttributeError\<close>.
\<close>

theorem jira_row_null_assignee_raises:
  "jira_row rp cfg
     (JObj [(lit ''key'', JStr (lit ''CAM-1'')),
            (lit ''fields'', JObj [(lit ''summary'', JStr (lit ''Login fails'')),
                                   (lit ''priority'', JObj [(lit ''name'', JStr (lit ''High''))]),
                                   (lit ''status'', JObj [(lit ''name'', JStr (lit ''Open''))]),
                                   (lit ''assignee'', JNull)])])
     = Inl AttributeError
   \<and> (\<exists>row. jira_row rp cfg
     (JObj [(lit ''key'', JStr (lit ''CAM-1'')),
            (lit ''fields'', JObj [(lit ''summary'', JStr (lit ''Login fails'')),
                                   (lit ''priority'', JObj [(lit ''name'', JStr (lit ''High''))]),
                                   (lit ''status'', JObj [(lit ''name'', JStr (lit ''Open''))])])])
     = Inr row \<and> row ! 4 = JStr em_dash)"
  by (simp add: jira_row_def py_or_def)


lemma replace_no_old: "old \<notin> set new \<Longrightarrow> old \<notin> set (replace old new s)"
  by (induction s) (auto simp: replace_def)

lemma replace_append: "replace old new (a @ b) = replace old new a @ replace old new b"
  by (simp add: replace_def)

lemma length_replace:
  "length (replace old new s) + count_list s old = length s + length new * count_list s old"
  by (induction s) (auto simp: replace_def)

lemma py_replace_eq_Inr:
  "py_replace v old new = Inr w \<longleftrightarrow> (\<exists>t. v = JStr t \<and> w = JStr (replace old new t))"
  by (cases v) auto

text \<open>
  On an issue object with a key and a fields object, whose summary is a string, null or
  absent and whose priority, status and assignee are objects or absent, a row is rendered.
\<close>

lemma jira_row_returns:
  assumes "map_of ikvs (lit ''key'') = Some key"
    and "map_of ikvs (lit ''fields'') = Some (JObj fkvs)"
    and "map_of fkvs (lit ''summary'') = None \<or> map_of fkvs (lit ''summary'') = Some JNull
         \<or> map_of fkvs (lit ''summary'') = Some (JStr t)"
    and "map_of fkvs (lit ''priority'') = None \<or> map_of fkvs (lit ''priority'') = Some (JObj p)"
    and "map_of fkvs (lit ''status'') = None \<or> map_of fkvs (lit ''status'') = Some (JObj st)"
    and "map_of fkvs (lit ''assignee'') = None \<or> map_of fkvs (lit ''assignee'') = Some (JObj a)"
  shows "\<exists>row. jira_row rp cfg (JObj ikvs) = Inr row"
  using assms by (auto simp: jira_row_def py_or_def)

text \<open>
  Claim C8. Whenever a row is rendered for an issue, its summary cell is the summary text
  of the issue (the empty text when the summary is missing, null or empty) with every
  \<open><\<close> replaced by \<open>&lt;\<close>: the cell holds no \<open><\<close>, and it is longer than the text by three
  characters for each \<open><\<close> of the text.
\<close>

theorem summary_cell_escaped:
  assumes "jira_row rp cfg issue = Inr row"
  shows "\<exists>f s t. py_item issue (lit ''fields'') = Inr f
           \<and> py_get f (lit ''summary'') JNull = Inr s
           \<and> py_or s (JStr []) = JStr t
           \<and> length row = 5
           \<and> row ! 1 = JStr (replace 60 (lit ''&lt;'') t)
           \<and> 60 \<notin> set (replace 60 (lit ''&lt;'') t)
           \<and> length (replace 60 (lit ''&lt;'') t) = length t + 3 * count_list t 60"
proof -
  from assms obtain f key s w where f: "py_item issue (lit ''fields'') = Inr f"
    and s: "py_get f (lit ''summary'') JNull = Inr s"
    and w: "py_replace (py_or s (JStr [])) 60 (lit ''&lt;'') = Inr w"
    and len: "length row = 5" and cell: "row ! 1 = w"
    by (auto simp: jira_row_def bindE_eq_Inr)
  from w obtain t where t: "py_or s (JStr []) = JStr t" "w = JStr (replace 60 (lit ''&lt;'') t)"
    by (auto simp: py_replace_eq_Inr)
  have no: "60 \<notin> set (replace 60 (lit ''&lt;'') t)"
    by (rule replace_no_old) (simp add: lit_def)
  have "length (replace 60 (lit ''&lt;'') t) + count_list t 60
          = length t + length (lit ''&lt;'') * count_list t 60"
    by (rule length_replace)
  then have "length (replace 60 (lit ''&lt;'') t) = length t + 3 * count_list t 60"
    by (simp add: lit_def)
  with f s t len cell no show ?thesis by blast
qed

theorem summary_cell_escaped_witness:
  "jira_row (\<lambda>v. []) \<lparr>JIRA_BASE = lit ''https://j.example'', JIRA_EMAIL = [], JIRA_TOKEN = [],
       PROJECT_KEY = lit ''CAM'', Z_TOKEN = [], SMTP_HOST = [], SMTP_PORT = 587, SMTP_USER = [],
       SMTP_PASS = [], MAIL_TO = [], MAIL_FROM = []\<rparr>
     (JObj [(lit ''key'', JStr (lit ''CAM-1'')),
            (lit ''fields'', JObj [(lit ''summary'', JStr (lit ''a<b<c''))])])
   = Inr [JStr (lit ''<a href='' @ [39] @ lit ''https://j.example/browse/CAM-1'' @ [39] @ lit ''>CAM-1</a>''),
          JStr (lit ''a&lt;b&lt;c''), JStr [], JStr [], JStr em_dash]
   \<and> 60 \<notin> set (lit ''a&lt;b&lt;c'')"
  using summary_cell_escaped [of "\<lambda>v. []" "\<lparr>JIRA_BASE = lit ''https://j.example'', JIRA_EMAIL = [], JIRA_TOKEN = [],
       PROJECT_KEY = lit ''CAM'', Z_TOKEN = [], SMTP_HOST = [], SMTP_PORT = 587, SMTP_USER = [],
       SMTP_PASS = [], MAIL_TO = [], MAIL_FROM = []\<rparr>"
     "JObj [(lit ''key'', JStr (lit ''CAM-1'')),
            (lit ''fields'', JObj [(lit ''summary'', JStr (lit ''a<b<c''))])]"
     "[JStr (lit ''<a href='' @ [39] @ lit ''https://j.example/browse/CAM-1'' @ [39] @ lit ''>CAM-1</a>''),
          JStr (lit ''a&lt;b&lt;c''), JStr [], JStr [], JStr em_dash]"]
  by (simp add: jira_row_def py_or_def html_link_def replace_def lit_def)


section \<open>Tables (lines 100 to 111)\<close>

text \<open>
  Rows are counted in the rendered string by the positions at which \<open><tr>\<close> starts. A cell
  text without \<open><tr\<close> cannot add such a position, also not together with the markup
  that follows it, which starts with \<open><\<close>.
\<close>

lemma no_tr_across:
  assumes "take (Suc (Suc (Suc 0))) (x # xs) \<noteq> [60::nat, 116, 114]"
  shows "take (Suc (Suc (Suc (Suc 0)))) (x # xs @ 60 # b) \<noteq> [60, 116, 114, 62]"
proof (cases xs)
  case Nil
  then show ?thesis by simp
next
  case (Cons y ys)
  note xs = this
  show ?thesis
  proof (cases ys)
    case Nil
    with xs show ?thesis by simp
  next
    case (Cons z zs)
    with xs assms show ?thesis by auto
  qed
qed

lemma occurrences_tr_skip:
  "occurrences [60, 116, 114] c = 0 \<Longrightarrow>
     occurrences [60, 116, 114, 62] (c @ 60 # b) = occurrences [60, 116, 114, 62] (60 # b)"
proof (induction c)
  case Nil
  then show ?case by simp
next
  case (Cons x xs)
  from Cons.prems have 1: "take (Suc (Suc (Suc 0))) (x # xs) \<noteq> [60, 116, 114]"
    and 2: "occurrences [60, 116, 114] xs = 0"
    by (simp_all split: if_splits)
  from 1 have 3: "take (Suc (Suc (Suc (Suc 0)))) (x # xs @ 60 # b) \<noteq> [60, 116, 114, 62]"
    by (rule no_tr_across)
  have "occurrences [60, 116, 114, 62] ((x # xs) @ 60 # b)
          = (if take (Suc (Suc (Suc (Suc 0)))) (x # xs @ 60 # b) = [60, 116, 114, 62] then 1 else 0)
            + occurrences [60, 116, 114, 62] (xs @ 60 # b)"
    by simp
  with 3 Cons.IH [OF 2] show ?case by (simp only: if_False add_0)
qed

lemma occurrences_td:
  assumes "occurrences (lit ''<tr'') c = 0"
  shows "occurrences (lit ''<tr>'') (lit ''<td>'' @ c @ lit ''</td>'' @ rest)
           = occurrences (lit ''<tr>'') rest"
  using occurrences_tr_skip [of c "[47, 116, 100, 62] @ rest"] assms
  by (simp add: lit_def)

lemma occurrences_th:
  assumes "occurrences (lit ''<tr'') c = 0"
  shows "occurrences (lit ''<tr>'') (lit ''<th>'' @ c @ lit ''</th>'' @ rest)
           = occurrences (lit ''<tr>'') rest"
  using occurrences_tr_skip [of c "[47, 116, 104, 62] @ rest"] assms
  by (simp add: lit_def)

lemma occurrences_cells:
  "list_all (\<lambda>c. occurrences (lit ''<tr'') (py_str rp c) = 0) row \<Longrightarrow>
     occurrences (lit ''<tr>'')
       (concat (map (\<lambda>cell. lit ''<td>'' @ py_str rp cell @ lit ''</td>'') row) @ rest)
     = occurrences (lit ''<tr>'') rest"
  by (induction row) (simp_all add: occurrences_td del: occurrences.simps)

lemma occurrences_headers:
  "list_all (\<lambda>c. occurrences (lit ''<tr'') (py_str rp c) = 0) hs \<Longrightarrow>
     occurrences (lit ''<tr>'')
       (concat (map (\<lambda>h. lit ''<th>'' @ py_str rp h @ lit ''</th>'') hs) @ rest)
     = occurrences (lit ''<tr>'') rest"
  by (induction hs) (simp_all add: occurrences_th del: occurrences.simps)

lemma occurrences_close_tr:
  "occurrences (lit ''<tr>'') (lit ''</tr>'' @ rest) = occurrences (lit ''<tr>'') rest"
  by (simp add: lit_def)

lemma occurrences_open_tr:
  "occurrences (lit ''<tr>'') (lit ''<tr>'' @ rest) = Suc (occurrences (lit ''<tr>'') rest)"
  by (simp add: lit_def)

lemma occurrences_table_row:
  assumes "list_all (\<lambda>c. occurrences (lit ''<tr'') (py_str rp c) = 0) row"
  shows "occurrences (lit ''<tr>'') (table_row rp row @ rest) = Suc (occurrences (lit ''<tr>'') rest)"
  using occurrences_cells [OF assms, of "lit ''</tr>'' @ rest"]
  by (simp add: table_row_def occurrences_open_tr occurrences_close_tr del: occurrences.simps)

lemma occurrences_table_rows:
  "list_all (list_all (\<lambda>c. occurrences (lit ''<tr'') (py_str rp c) = 0)) rows \<Longrightarrow>
     occurrences (lit ''<tr>'') (concat (map (table_row rp) rows) @ rest)
       = length rows + occurrences (lit ''<tr>'') rest"
  by (induction rows) (simp_all add: occurrences_table_row del: occurrences.simps)

lemma occurrences_open_tbody:
  "occurrences (lit ''<tr>'') (lit ''<tbody>'' @ rest) = occurrences (lit ''<tr>'') rest"
  by (simp add: lit_def)

lemma occurrences_close_tbody:
  "occurrences (lit ''<tr>'') (lit ''</tbody>'') = 0"
  by (simp add: lit_def)

lemma occurrences_table_body:
  assumes "list_all (list_all (\<lambda>c. occurrences (lit ''<tr'') (py_str rp c) = 0)) rows"
  shows "occurrences (lit ''<tr>'') (table_body rp rows) = length rows"
  using occurrences_table_rows [OF assms, of "lit ''</tbody>''"]
  by (simp add: table_body_def occurrences_open_tbody occurrences_close_tbody
        del: occurrences.simps)

lemma occurrences_table_open:
  "occurrences (lit ''<tr>'')
     (lit ''<table border='1' cellspacing='0' cellpadding='6'>'' @ lit ''<thead><tr>'' @ rest)
   = Suc (occurrences (lit ''<tr>'') rest)"
  by (simp add: lit_def)

lemma occurrences_close_thead:
  "occurrences (lit ''<tr>'') (lit ''</tr></thead>'') = 0"
  by (simp add: lit_def)

lemma occurrences_table_head:
  assumes "list_all (\<lambda>c. occurrences (lit ''<tr'') (py_str rp c) = 0) hs"
  shows "occurrences (lit ''<tr>'') (table_head rp hs) = 1"
  using occurrences_headers [OF assms, of "lit ''</tr></thead>''"]
  by (simp add: table_head_def occurrences_table_open occurrences_close_thead
        del: occurrences.simps)

lemma table_body_split:
  assumes "i < length rows"
  shows "table_body rp rows =
           (lit ''<tbody>'' @ concat (map (table_row rp) (take i rows)))
           @ table_row rp (rows ! i)
           @ (concat (map (table_row rp) (drop (Suc i) rows)) @ lit ''</tbody>'')"
proof -
  from assms have "rows = take i rows @ rows ! i # drop (Suc i) rows"
    by (simp add: id_take_nth_drop)
  then have "concat (map (table_row rp) rows)
      = concat (map (table_row rp) (take i rows @ rows ! i # drop (Suc i) rows))"
    by simp
  then show ?thesis by (simp add: table_body_def)
qed

lemma occurrences_before_row:
  assumes "list_all (list_all (\<lambda>c. occurrences (lit ''<tr'') (py_str rp c) = 0)) rows"
    and "i < length rows"
  shows "occurrences (lit ''<tr>'') (lit ''<tbody>'' @ concat (map (table_row rp) (take i rows))) = i"
proof -
  from assms(1) have "list_all (list_all (\<lambda>c. occurrences (lit ''<tr'') (py_str rp c) = 0)) (take i rows)"
    by (auto simp: list_all_iff dest: in_set_takeD)
  from occurrences_table_rows [OF this, of "[]"] assms(2) show ?thesis
    by (simp add: occurrences_open_tbody del: occurrences.simps(2))
qed

text \<open>
  Claim C7, as stated, fails: \<open>to_table\<close> writes every cell text as it is, so a cell that
  holds row markup adds rows. One input row whose only cell is \<open>a</td></tr><tr><td>b\<close> gives
  the very string that the two input rows \<open>a\<close> and \<open>b\<close> give, with two body rows.
\<close>

theorem to_table_cell_markup_adds_row:
  "to_table (\<lambda>v. []) [[JStr (lit ''a</td></tr><tr><td>b'')]] [JStr (lit ''Key'')]
     = to_table (\<lambda>v. []) [[JStr (lit ''a'')], [JStr (lit ''b'')]] [JStr (lit ''Key'')]
   \<and> length [[JStr (lit ''a</td></tr><tr><td>b'')]] = 1
   \<and> occurrences (lit ''<tr>'')
         (table_body (\<lambda>v. []) [[JStr (lit ''a</td></tr><tr><td>b'')]]) = 2"
  by (simp add: to_table_def table_body_def table_row_def lit_def)

text \<open>
  Claim C7, amended. The table is the opening tag with the header row, then the body
  element, then the closing tag, and the body element is \<open><tbody>\<close>, the row elements made
  of the input rows in input order, \<open></tbody>\<close>; with no rows it is \<open><tbody></tbody>\<close>, so the
  table is there with an empty body. When no header or cell text contains \<open><tr\<close>, the
  header part holds one row, the body holds exactly as many rows as the input, and the
  element of input row \<open>i\<close> stands in the body after exactly \<open>i\<close> rows.
\<close>

theorem to_table_rows:
  "to_table rp rows headers = table_head rp headers @ table_body rp rows @ lit ''</table>''
   \<and> table_body rp rows = lit ''<tbody>'' @ concat (map (table_row rp) rows) @ lit ''</tbody>''
   \<and> table_body rp [] = lit ''<tbody></tbody>''
   \<and> (list_all (\<lambda>h. occurrences (lit ''<tr'') (py_str rp h) = 0) headers \<longrightarrow>
         occurrences (lit ''<tr>'') (table_head rp headers) = 1)
   \<and> (list_all (list_all (\<lambda>c. occurrences (lit ''<tr'') (py_str rp c) = 0)) rows \<longrightarrow>
         occurrences (lit ''<tr>'') (table_body rp rows) = length rows
         \<and> (\<forall>i<length rows. \<exists>pre post.
               table_body rp rows = pre @ table_row rp (rows ! i) @ post
               \<and> occurrences (lit ''<tr>'') pre = i))"
proof -
  have 0: "table_body rp rows = lit ''<tbody>'' @ concat (map (table_row rp) rows) @ lit ''</tbody>''"
    by (simp add: table_body_def)
  have 1: "to_table rp rows headers = table_head rp headers @ table_body rp rows @ lit ''</table>''"
    by (simp add: to_table_def table_head_def table_body_def)
  have 2: "table_body rp [] = lit ''<tbody></tbody>''"
    by (simp add: table_body_def lit_def)
  have 3: "\<exists>pre post. table_body rp rows = pre @ table_row rp (rows ! i) @ post
             \<and> occurrences (lit ''<tr>'') pre = i"
    if "list_all (list_all (\<lambda>c. occurrences (lit ''<tr'') (py_str rp c) = 0)) rows"
      and "i < length rows" for i
    using table_body_split [OF that(2), of rp] occurrences_before_row [OF that] by blast
  show ?thesis
    using 0 1 2 3 occurrences_table_head [of rp headers] occurrences_table_body [of rp rows]
    by blast
qed

theorem to_table_rows_witness:
  "list_all (\<lambda>h. occurrences (lit ''<tr'') (py_str (\<lambda>v. []) h) = 0) [JStr (lit ''Key''), JStr (lit ''Summary'')]
   \<and> list_all (list_all (\<lambda>c. occurrences (lit ''<tr'') (py_str (\<lambda>v. []) c) = 0))
        [[JStr (lit ''CAM-1''), JStr (lit ''a&lt;b'')], [JStr (lit ''CAM-2''), JStr []]]
   \<and> occurrences (lit ''<tr>'') (table_head (\<lambda>v. []) [JStr (lit ''Key''), JStr (lit ''Summary'')]) = 1
   \<and> occurrences (lit ''<tr>'') (table_body (\<lambda>v. [])
        [[JStr (lit ''CAM-1''), JStr (lit ''a&lt;b'')], [JStr (lit ''CAM-2''), JStr []]]) = 2
   \<and> to_table (\<lambda>v. []) [[JStr (lit ''CAM-1''), JStr (lit ''a&lt;b'')], [JStr (lit ''CAM-2''), JStr []]]
        [JStr (lit ''Key''), JStr (lit ''Summary'')]
      = lit ''<table border='1' cellspacing='0' cellpadding='6'><thead><tr><th>Key</th><th>Summary</th></tr></thead><tbody><tr><td>CAM-1</td><td>a&lt;b</td></tr><tr><td>CAM-2</td><td></td></tr></tbody></table>''"
  using to_table_rows [of "\<lambda>v. []"
      "[[JStr (lit ''CAM-1''), JStr (lit ''a&lt;b'')], [JStr (lit ''CAM-2''), JStr []]]"
      "[JStr (lit ''Key''), JStr (lit ''Summary'')]"]
  by (simp add: to_table_def table_head_def table_body_def table_row_def lit_def)


section \<open>Missing configuration (lines 12 to 33)\<close>

lemma bindIO_pure_Inl [simp]: "bindIO (pureIO (Inl e)) f = ([], Inl e)"
  by (simp add: bindIO_def pureIO_def)

lemma bindIO_pure_Inr [simp]: "bindIO (pureIO (Inr x)) f = f x"
  by (simp add: bindIO_def pureIO_def)

lemma fst_bindIO: "\<exists>tr. fst (bindIO m f) = fst m @ tr"
  by (cases "snd m") (simp_all add: bindIO_def)

lemma module_config_missing:
  assumes "k0 \<in> set required_keys" and "env k0 = None"
  shows "\<exists>k. find (\<lambda>k. env k = None) required_keys = Some k
           \<and> module_config int_str env =
               Inl (if k \<in> set (take 5 required_keys) then KeyError k
                    else (case int_str (environ_get env (lit ''SMTP_PORT'') (lit ''587'')) of
                            None \<Rightarrow> ValueError | Some n \<Rightarrow> KeyError k))"
  using assms
  by (cases "int_str (environ_get env (lit ''SMTP_PORT'') (lit ''587''))")
     (auto simp: required_keys_def module_config_def environ_item_def int_of_def
           split: option.splits)

text \<open>With a complete configuration the run does reach the tracker: its first call is the search.\<close>

lemma configured_run_calls_tracker:
  assumes "module_config (int_of_str lib) env = Inr cfg"
  shows "\<exists>url auth body tr. fst (daily_cam_report lib env today w) = HttpPost url auth body # tr"
proof -
  let ?f = "\<lambda>defects_today.
     bindIO (jira_search cfg w (jql_open_blockers cfg)
               (lit ''key,summary,priority,status,assignee'')) (\<lambda>open_blockers.
     bindIO (zephyr_get_test_executions cfg w (PROJECT_KEY cfg) (start_iso today)
               (end_iso today) 1000) (\<lambda>executions.
     bindIO (pureIO (status_counts executions)) (\<lambda>counts.
     bindIO (pureIO (html_body (repr_json lib) cfg today executions counts
               defects_today open_blockers)) (\<lambda>body.
     bindIO (pureIO (case email_error lib (msg cfg today body) of
                       Some e \<Rightarrow> Inl e | None \<Rightarrow> Inr (msg cfg today body))) (\<lambda>m.
     smtp_session cfg w m)))))"
  from assms have "daily_cam_report lib env today w =
      bindIO (jira_search cfg w (jql_defects_today cfg)
               (lit ''key,summary,priority,status,assignee'')) ?f"
    by (simp only: daily_cam_report_def bindIO_pure_Inr)
  moreover obtain tr where "fst (bindIO (jira_search cfg w (jql_defects_today cfg)
               (lit ''key,summary,priority,status,assignee'')) ?f)
       = fst (jira_search cfg w (jql_defects_today cfg)
               (lit ''key,summary,priority,status,assignee'')) @ tr"
    using fst_bindIO by blast
  ultimately show ?thesis by (simp add: jira_search_def Let_def)
qed

text \<open>
  Claim C2, as stated, fails: with \<open>SMTP_USER\<close> absent and \<open>SMTP_PORT\<close> set to \<open>abc\<close> the run
  ends before any call, but with the \<open>ValueError\<close> of \<open>int\<close> at line 28 and not with a
  missing-key lookup error, since the port is converted before \<open>SMTP_USER\<close> is read. The
  library of the example converts \<open>587\<close> and rejects \<open>abc\<close>, as Python's \<open>int\<close> does.
\<close>

theorem missing_key_value_error:
  "map_of [(lit ''JIRA_BASE'', lit ''https://j.example''), (lit ''JIRA_EMAIL'', lit ''qa@x.com''),
           (lit ''JIRA_API_TOKEN'', lit ''t1''), (lit ''ZEPHYR_SCALE_TOKEN'', lit ''t2''),
           (lit ''SMTP_HOST'', lit ''smtp.gmail.com''), (lit ''SMTP_PORT'', lit ''abc''),
           (lit ''SMTP_PASS'', lit ''pw''), (lit ''MAIL_TO'', lit ''a@x.com'')] (lit ''SMTP_USER'') = None
   \<and> daily_cam_report
        \<lparr>repr_json = \<lambda>v. [], int_of_str = map_of [(lit ''587'', 587)], email_error = \<lambda>m. None\<rparr>
        (map_of [(lit ''JIRA_BASE'', lit ''https://j.example''), (lit ''JIRA_EMAIL'', lit ''qa@x.com''),
           (lit ''JIRA_API_TOKEN'', lit ''t1''), (lit ''ZEPHYR_SCALE_TOKEN'', lit ''t2''),
           (lit ''SMTP_HOST'', lit ''smtp.gmail.com''), (lit ''SMTP_PORT'', lit ''abc''),
           (lit ''SMTP_PASS'', lit ''pw''), (lit ''MAIL_TO'', lit ''a@x.com'')])
        (lit ''2024-01-02'')
        \<lparr>post_response = \<lambda>url auth body. RequestFailed, get_response = \<lambda>url headers. RequestFailed,
         smtp_open_ok = \<lambda>host port. False, starttls_ok = False, login_ok = \<lambda>user pass. False,
         send_message_ok = \<lambda>m. False, exit_ok = False\<rparr>
       = ([], Inl ValueError)"
  by (simp add: daily_cam_report_def module_config_def environ_item_def environ_get_def
        int_of_def)

text \<open>
  Claim C2, amended. When a required key is absent, the run makes no call at all (no HTTP
  request, no mail-session operation) and fails. The failure is the lookup error of the
  first absent required key in reading order; only when that key is one of the three read
  after line 28 and \<open>int\<close> rejects the text of \<open>SMTP_PORT\<close> (or of its default), it is the
  \<open>ValueError\<close> of that conversion.
\<close>

theorem missing_key_fails_before_any_call:
  assumes "k0 \<in> set required_keys" and "env k0 = None"
  shows "\<exists>k. find (\<lambda>k. env k = None) required_keys = Some k
           \<and> daily_cam_report lib env today w =
               ([], Inl (if k \<in> set (take 5 required_keys) then KeyError k
                         else (case int_of_str lib (environ_get env (lit ''SMTP_PORT'') (lit ''587'')) of
                                 None \<Rightarrow> ValueError | Some n \<Rightarrow> KeyError k)))"
proof -
  from assms have "\<exists>k. find (\<lambda>k. env k = None) required_keys = Some k
           \<and> module_config (int_of_str lib) env =
               Inl (if k \<in> set (take 5 required_keys) then KeyError k
                    else (case int_of_str lib (environ_get env (lit ''SMTP_PORT'') (lit ''587'')) of
                            None \<Rightarrow> ValueError | Some n \<Rightarrow> KeyError k))"
    by (rule module_config_missing)
  then obtain k where
    k: "find (\<lambda>k. env k = None) required_keys = Some k"
    and m: "module_config (int_of_str lib) env =
               Inl (if k \<in> set (take 5 required_keys) then KeyError k
                    else (case int_of_str lib (environ_get env (lit ''SMTP_PORT'') (lit ''587'')) of
                            None \<Rightarrow> ValueError | Some n \<Rightarrow> KeyError k))"
    by blast
  from m have "daily_cam_report lib env today w =
               ([], Inl (if k \<in> set (take 5 required_keys) then KeyError k
                         else (case int_of_str lib (environ_get env (lit ''SMTP_PORT'') (lit ''587'')) of
                                 None \<Rightarrow> ValueError | Some n \<Rightarrow> KeyError k)))"
    by (simp only: daily_cam_report_def bindIO_pure_Inl)
  with k show ?thesis by blast
qed

theorem missing_key_fails_before_any_call_witness:
  "lit ''MAIL_TO'' \<in> set required_keys
   \<and> map_of [(lit ''JIRA_BASE'', lit ''https://j.example''), (lit ''JIRA_EMAIL'', lit ''qa@x.com''),
             (lit ''JIRA_API_TOKEN'', lit ''t1''), (lit ''ZEPHYR_SCALE_TOKEN'', lit ''t2''),
             (lit ''SMTP_HOST'', lit ''smtp.gmail.com''), (lit ''SMTP_USER'', lit ''qa@x.com''),
             (lit ''SMTP_PASS'', lit ''pw'')] (lit ''MAIL_TO'') = None
   \<and> daily_cam_report
        \<lparr>repr_json = \<lambda>v. [], int_of_str = map_of [(lit ''587'', 587)], email_error = \<lambda>m. None\<rparr>
        (map_of [(lit ''JIRA_BASE'', lit ''https://j.example''), (lit ''JIRA_EMAIL'', lit ''qa@x.com''),
             (lit ''JIRA_API_TOKEN'', lit ''t1''), (lit ''ZEPHYR_SCALE_TOKEN'', lit ''t2''),
             (lit ''SMTP_HOST'', lit ''smtp.gmail.com''), (lit ''SMTP_USER'', lit ''qa@x.com''),
             (lit ''SMTP_PASS'', lit ''pw'')])
        (lit ''2024-01-02'')
        \<lparr>post_response = \<lambda>url auth body. RequestFailed, get_response = \<lambda>url headers. RequestFailed,
         smtp_open_ok = \<lambda>host port. False, starttls_ok = False, login_ok = \<lambda>user pass. False,
         send_message_ok = \<lambda>m. False, exit_ok = False\<rparr>
       = ([], Inl (KeyError (lit ''MAIL_TO'')))"
  using missing_key_fails_before_any_call [of "lit ''MAIL_TO''"
        "map_of [(lit ''JIRA_BASE'', lit ''https://j.example''), (lit ''JIRA_EMAIL'', lit ''qa@x.com''),
             (lit ''JIRA_API_TOKEN'', lit ''t1''), (lit ''ZEPHYR_SCALE_TOKEN'', lit ''t2''),
             (lit ''SMTP_HOST'', lit ''smtp.gmail.com''), (lit ''SMTP_USER'', lit ''qa@x.com''),
             (lit ''SMTP_PASS'', lit ''pw'')]"
        "\<lparr>repr_json = \<lambda>v. [], int_of_str = map_of [(lit ''587'', 587)], email_error = \<lambda>m. None\<rparr>"
        "lit ''2024-01-02''"
        "\<lparr>post_response = \<lambda>url auth body. RequestFailed, get_response = \<lambda>url headers. RequestFailed,
         smtp_open_ok = \<lambda>host port. False, starttls_ok = False, login_ok = \<lambda>user pass. False,
         send_message_ok = \<lambda>m. False, exit_ok = False\<rparr>"]
  by (simp add: required_keys_def environ_get_def)

end
